theory Spec2Isabelle
  imports Main
begin

section \<open>Data model (src/types.ts)\<close>

text \<open>
  JavaScript strings are sequences of code units. They are modelled as \<^typ>\<open>string\<close>,
  a \<^typ>\<open>char\<close> standing for a code unit in the range U+0000 to U+00FF. Numbers that the
  program only ever uses as integers (question ids, counters, seconds, marks) are
  \<^typ>\<open>int\<close>. Fields of the interfaces that no modelled function reads (question text,
  options, figures, passages, titles) are left out of the records.
\<close>

datatype QuestionType = MCQ | TITA

datatype QuestionStatus =
  NotVisited | NotAnswered | Answered | MarkedForReview | AnsweredAndMarked

record Question =
  qid :: int
  qtype :: QuestionType
  answerKey :: "string option"

record Marks =
  correct :: int
  wrong :: int

record MarkingScheme =
  mcq :: Marks
  tita :: Marks

record Meta =
  marking :: MarkingScheme

record QuestionSet =
  meta :: Meta
  questions :: "Question list"

type_synonym Answers = "int \<rightharpoonup> string"

type_synonym Statuses = "int \<rightharpoonup> QuestionStatus"

record Score =
  raw :: int
  mcqCorrect :: int
  mcqWrong :: int
  titaCorrect :: int
  totalAnswered :: int

record AttemptTimer =
  startedAt :: int
  durationSec :: int
  remainingSec :: int

datatype AttemptStatus = inProgress | submitted

record Attempt =
  uploadId :: string
  userId :: string
  timer :: AttemptTimer
  answers :: Answers
  statuses :: Statuses
  status :: AttemptStatus
  score :: "Score option"

section \<open>String primitives of the platform\<close>

text \<open>
  \<open>String.prototype.trim\<close> removes white space and line terminators from both ends.
  Below U+0100 these are TAB, LF, VT, FF, CR, SPACE and NO-BREAK SPACE.
\<close>

definition isWhiteSpace :: "char \<Rightarrow> bool" where
  "isWhiteSpace c \<longleftrightarrow>
     c \<in> set [CHR 0x09, CHR 0x0A, CHR 0x0B, CHR 0x0C, CHR 0x0D, CHR 0x20, CHR 0xA0]"

definition trim :: "string \<Rightarrow> string" where
  "trim s = rev (dropWhile isWhiteSpace (rev (dropWhile isWhiteSpace s)))"

text \<open>
  \<open>String.prototype.toLowerCase\<close> below U+0100: the letters A to Z, and the Latin-1
  capitals U+00C0 to U+00DE without the multiplication sign U+00D7, move up by 32;
  every other code unit is kept.
\<close>

definition lowerChar :: "char \<Rightarrow> char" where
  "lowerChar c =
     (let n = (of_char c :: nat)
      in if (65 \<le> n \<and> n \<le> 90) \<or> (192 \<le> n \<and> n \<le> 214) \<or> (216 \<le> n \<and> n \<le> 222)
         then char_of (n + 32) else c)"

definition toLowerCase :: "string \<Rightarrow> string" where
  "toLowerCase s = map lowerChar s"

text \<open>Truthiness of a value of type \<open>string | undefined\<close>: the empty string is falsy.\<close>

definition truthy :: "string option \<Rightarrow> bool" where
  "truthy v = (case v of None \<Rightarrow> False | Some s \<Rightarrow> s \<noteq> [])"

section \<open>Scoring (src/services/examLogic.ts)\<close>

text \<open>The four counters that the loop of \<open>calculateScore\<close> updates.\<close>

record Tally =
  nMcqCorrect :: int
  nMcqWrong :: int
  nTitaCorrect :: int
  nTotalAnswered :: int

definition zeroTally :: Tally where
  "zeroTally = \<lparr>nMcqCorrect = 0, nMcqWrong = 0, nTitaCorrect = 0, nTotalAnswered = 0\<rparr>"

text \<open>The guard \<open>userAnswer && userAnswer.trim() !== ""\<close>.\<close>

definition isAnswered :: "string option \<Rightarrow> bool" where
  "isAnswered userAnswer =
     (case userAnswer of None \<Rightarrow> False | Some a \<Rightarrow> a \<noteq> [] \<and> trim a \<noteq> [])"

text \<open>
  \<open>userAnswer.trim().toLowerCase() === q.answerKey?.toLowerCase()\<close>: on a null key the
  right-hand side is \<open>undefined\<close>, which no string is strictly equal to.
\<close>

definition isCorrect :: "string \<Rightarrow> string option \<Rightarrow> bool" where
  "isCorrect userAnswer key =
     (case key of None \<Rightarrow> False | Some k \<Rightarrow> toLowerCase (trim userAnswer) = toLowerCase k)"

text \<open>One iteration of the loop over \<open>questionSet.questions\<close>.\<close>

definition scoreStep :: "Attempt \<Rightarrow> Question \<Rightarrow> Tally \<Rightarrow> Tally" where
  "scoreStep att q t =
     (case answers att (qid q) of
        None \<Rightarrow> t
      | Some userAnswer \<Rightarrow>
          if isAnswered (Some userAnswer) then
            (let t1 = t\<lparr>nTotalAnswered := nTotalAnswered t + 1\<rparr>
             in case qtype q of
                  MCQ \<Rightarrow>
                    if isCorrect userAnswer (answerKey q)
                    then t1\<lparr>nMcqCorrect := nMcqCorrect t1 + 1\<rparr>
                    else t1\<lparr>nMcqWrong := nMcqWrong t1 + 1\<rparr>
                | TITA \<Rightarrow>
                    if isCorrect userAnswer (answerKey q)
                    then t1\<lparr>nTitaCorrect := nTitaCorrect t1 + 1\<rparr>
                    else t1)
          else t)"

fun scoreLoop :: "Attempt \<Rightarrow> Question list \<Rightarrow> Tally \<Rightarrow> Tally" where
  "scoreLoop att [] t = t"
| "scoreLoop att (q # qs) t = scoreLoop att qs (scoreStep att q t)"

definition calculateScore :: "Attempt \<Rightarrow> QuestionSet \<Rightarrow> Score" where
  "calculateScore att questionSet =
     (let m = marking (meta questionSet);
          t = scoreLoop att (questions questionSet) zeroTally
      in \<lparr>raw = nMcqCorrect t * correct (mcq m) + nMcqWrong t * wrong (mcq m)
                 + nTitaCorrect t * correct (tita m),
          mcqCorrect = nMcqCorrect t,
          mcqWrong = nMcqWrong t,
          titaCorrect = nTitaCorrect t,
          totalAnswered = nTotalAnswered t\<rparr>)"

text \<open>The marking scheme that the question set provider attaches to every parsed paper.\<close>

definition defaultMarking :: MarkingScheme where
  "defaultMarking = \<lparr>mcq = \<lparr>correct = 3, wrong = - 1\<rparr>, tita = \<lparr>correct = 3, wrong = 0\<rparr>\<rparr>"

section \<open>Starting an attempt (src/App.tsx, startExam)\<close>

text \<open>
  The browser services that \<open>startExam\<close> calls are parameters of the model:
  the contents of \<open>localStorage\<close>, \<open>JSON.parse\<close> (\<open>None\<close> when it throws a
  \<open>SyntaxError\<close>; the type \<open>'j\<close> stands for the parsed value, which the code stores
  without looking at it), \<open>parseInt(_, 10)\<close> (\<open>None\<close> for \<open>NaN\<close>), the conversion of a
  number to a string that \<open>parseInt\<close> applies to a number argument, and \<open>Date.now()\<close>.
\<close>

record 'j Platform =
  localStorage :: "string \<rightharpoonup> string"
  JSON_parse :: "string \<Rightarrow> 'j option"
  parseInt :: "string \<Rightarrow> int option"
  Number_toString :: "int \<Rightarrow> string"
  Date_now :: int

datatype Exception = SyntaxError

datatype View = Upload | Processing | Exam | Results

text \<open>
  The \<open>attempt\<close> state variable holds either an attempt built by \<open>startExam\<close> or
  whatever \<open>JSON.parse\<close> returned for the persisted blob.
\<close>

datatype 'j AttemptState = Fresh Attempt | Loaded 'j

record 'j App =
  view :: View
  processingError :: "string option"
  attempt :: "'j AttemptState option"
  currentQuestionIndex :: nat

definition EXAM_DURATION_SECONDS :: int where
  "EXAM_DURATION_SECONDS = 180 * 60"

definition noQuestionsMessage :: string where
  "noQuestionsMessage =
     ''No questions could be parsed from the PDF. It might be a blank document or have an unsupported format.''"

text \<open>\<open>Array.prototype.findIndex\<close>; \<open>None\<close> stands for the result \<open>-1\<close>.\<close>

fun findIndex :: "('a \<Rightarrow> bool) \<Rightarrow> 'a list \<Rightarrow> nat option" where
  "findIndex p [] = None"
| "findIndex p (x # xs) = (if p x then Some 0 else map_option Suc (findIndex p xs))"

text \<open>
  The status map built before the store is read: every question at \<open>NotVisited\<close>, then
  the first question's id at \<open>NotAnswered\<close>.
\<close>

definition initialStatuses :: "Question \<Rightarrow> Question list \<Rightarrow> Statuses" where
  "initialStatuses q0 qs =
     (fold (\<lambda>q m. m(qid q \<mapsto> NotVisited)) qs Map.empty)(qid q0 \<mapsto> NotAnswered)"

definition newAttempt :: "'j Platform \<Rightarrow> string \<Rightarrow> Statuses \<Rightarrow> Attempt" where
  "newAttempt p currentSessionId sts =
     \<lparr>uploadId = currentSessionId,
      userId = ''local_user'',
      timer = \<lparr>startedAt = Date_now p,
               durationSec = EXAM_DURATION_SECONDS,
               remainingSec = EXAM_DURATION_SECONDS\<rparr>,
      answers = Map.empty,
      statuses = sts,
      status = inProgress,
      score = None\<rparr>"

text \<open>
  The index restored with a saved attempt. \<open>lastQuestionId\<close> is the stored \<open>last_qid\<close>
  string when it is present and non-empty, else the first question's id; \<open>parseInt\<close>
  reads it, a number through its string form, and the result is looked up.
\<close>

definition savedQuestionIndex :: "'j Platform \<Rightarrow> string \<Rightarrow> Question \<Rightarrow> Question list \<Rightarrow> nat" where
  "savedQuestionIndex p currentSessionId q0 qs =
     (let lastQuestionId =
            (case localStorage p (''last_qid_'' @ currentSessionId) of
               None \<Rightarrow> Number_toString p (qid q0)
             | Some s \<Rightarrow> if s \<noteq> [] then s else Number_toString p (qid q0));
          savedIndex =
            (case parseInt p lastQuestionId of
               None \<Rightarrow> None
             | Some n \<Rightarrow> findIndex (\<lambda>q. qid q = n) qs)
      in case savedIndex of Some i \<Rightarrow> i | None \<Rightarrow> 0)"

text \<open>
  \<open>startExam\<close> returns the new application state, or the exception that leaves it.
  The only statement that can throw is the unguarded \<open>JSON.parse\<close>. The test
  \<open>if(savedAttemptRaw)\<close> fails on \<open>null\<close> and on the empty string; both lead to the
  branch that builds a new attempt.
\<close>

definition startExam ::
  "'j Platform \<Rightarrow> QuestionSet \<Rightarrow> string \<Rightarrow> 'j App \<Rightarrow> Exception + 'j App" where
  "startExam p qSet currentSessionId app =
     (case questions qSet of
        [] \<Rightarrow> Inr (app\<lparr>processingError := Some noQuestionsMessage, view := Upload\<rparr>)
      | q0 # rest \<Rightarrow>
          (let sts = initialStatuses q0 (questions qSet);
               savedAttemptRaw = localStorage p (''attempt_'' @ currentSessionId);
               started = Inr (app\<lparr>attempt := Some (Fresh (newAttempt p currentSessionId sts)),
                                  currentQuestionIndex := 0,
                                  view := Exam\<rparr>)
           in case savedAttemptRaw of
                None \<Rightarrow> started
              | Some blob \<Rightarrow>
                  if blob = [] then started
                  else
                    (case JSON_parse p blob of
                       None \<Rightarrow> Inl SyntaxError
                     | Some savedAttempt \<Rightarrow>
                         Inr (app\<lparr>attempt := Some (Loaded savedAttempt),
                                  currentQuestionIndex :=
                                    savedQuestionIndex p currentSessionId q0 (questions qSet),
                                  view := Exam\<rparr>))))"

section \<open>Answering and marking (src/App.tsx, ExamView)\<close>

definition updateStatus :: "int \<Rightarrow> QuestionStatus \<Rightarrow> Attempt \<Rightarrow> Attempt" where
  "updateStatus i newStatus prev = prev\<lparr>statuses := (statuses prev)(i \<mapsto> newStatus)\<rparr>"

definition handleAnswerChange :: "int \<Rightarrow> string \<Rightarrow> Attempt \<Rightarrow> Attempt" where
  "handleAnswerChange i answer prev =
     (let updatedAnswers = (answers prev)(i \<mapsto> answer);
          currentStatus = statuses prev i;
          newStatus =
            (if answer \<noteq> [] then
               (if currentStatus = Some MarkedForReview \<or> currentStatus = Some AnsweredAndMarked
                then Some AnsweredAndMarked
                else Some Answered)
             else
               (if currentStatus = Some AnsweredAndMarked then Some MarkedForReview
                else if currentStatus \<noteq> Some MarkedForReview then Some NotAnswered
                else currentStatus))
      in prev\<lparr>answers := updatedAnswers, statuses := (statuses prev)(i := newStatus)\<rparr>)"

text \<open>
  \<open>handleMarkForReview\<close> acts on the question on display, if there is one. The new
  status depends on the current status and on the truthiness of the current answer.
\<close>

definition handleMarkForReview :: "Question option \<Rightarrow> Attempt \<Rightarrow> Attempt" where
  "handleMarkForReview currentQuestion att =
     (case currentQuestion of
        None \<Rightarrow> att
      | Some q \<Rightarrow>
          (let i = qid q;
               currentStatus = statuses att i;
               newStatus =
                 (if currentStatus = Some MarkedForReview
                  then (if truthy (answers att i) then Answered else NotAnswered)
                  else if currentStatus = Some AnsweredAndMarked then Answered
                  else (if truthy (answers att i) then AnsweredAndMarked else MarkedForReview))
           in updateStatus i newStatus att))"

section \<open>The countdown (useTimer)\<close>

text \<open>
  The state of the hook: the two state variables, whether the interval whose id
  \<open>timerRef\<close> holds is still scheduled, and how often \<open>onEnd\<close> has been called.
  Time is a sequence of events: \<open>tick\<close> is one firing of the interval callback.
\<close>

record TimerHook =
  remainingTime :: int
  isRunning :: bool
  intervalLive :: bool
  onEndCalls :: nat

definition useTimer :: "int \<Rightarrow> TimerHook" where
  "useTimer durationSeconds =
     \<lparr>remainingTime = durationSeconds, isRunning = False, intervalLive = False, onEndCalls = 0\<rparr>"

definition endTimer :: "TimerHook \<Rightarrow> TimerHook" where
  "endTimer s = s\<lparr>intervalLive := False, isRunning := False, onEndCalls := Suc (onEndCalls s)\<rparr>"

text \<open>
  The effect, run after a render in which \<open>isRunning\<close> or \<open>remainingTime\<close> changed:
  the cleanup of its previous run clears the interval, then its body runs.
\<close>

definition timerEffect :: "TimerHook \<Rightarrow> TimerHook" where
  "timerEffect s =
     (let s1 = s\<lparr>intervalLive := False\<rparr>
      in if isRunning s1 \<and> remainingTime s1 > 0 then s1\<lparr>intervalLive := True\<rparr>
         else if remainingTime s1 \<le> 0 \<and> isRunning s1 then endTimer s1
         else s1)"

definition tick :: "TimerHook \<Rightarrow> TimerHook" where
  "tick s =
     (if intervalLive s then
        timerEffect
          (if remainingTime s \<le> 1 then (endTimer s)\<lparr>remainingTime := 0\<rparr>
           else s\<lparr>remainingTime := remainingTime s - 1\<rparr>)
      else s)"

definition start :: "TimerHook \<Rightarrow> TimerHook" where
  "start s = timerEffect (s\<lparr>isRunning := True\<rparr>)"

definition pause :: "TimerHook \<Rightarrow> TimerHook" where
  "pause s = timerEffect (s\<lparr>isRunning := False\<rparr>)"

definition setTime :: "int \<Rightarrow> TimerHook \<Rightarrow> TimerHook" where
  "setTime newTime s =
     (if \<not> isRunning s then timerEffect (s\<lparr>remainingTime := newTime\<rparr>) else s)"


section \<open>Sample data\<close>

text \<open>An in-progress attempt with given answers and statuses, and a paper with the default marking.\<close>

definition sampleAttempt :: "Answers \<Rightarrow> Statuses \<Rightarrow> Attempt" where
  "sampleAttempt ans sts =
     \<lparr>uploadId = ''paper.pdf-0'', userId = ''local_user'',
      timer = \<lparr>startedAt = 0, durationSec = 10800, remainingSec = 10800\<rparr>,
      answers = ans, statuses = sts, status = inProgress, score = None\<rparr>"

definition sampleSet :: "Question list \<Rightarrow> QuestionSet" where
  "sampleSet qs = \<lparr>meta = \<lparr>marking = defaultMarking\<rparr>, questions = qs\<rparr>"

text \<open>
  The application state before an upload (the initial values of the state variables), a
  browser whose store is empty, and one whose store holds the text \<open>{\<close> under the
  attempt key of the session \<open>paper.pdf-0\<close>. Of the sample platform's functions only
  \<open>JSON_parse\<close> is ever applied, and only to that text, which \<open>JSON.parse\<close> rejects.
\<close>

definition initialApp :: "'j App" where
  "initialApp = \<lparr>view = Upload, processingError = None, attempt = None, currentQuestionIndex = 0\<rparr>"

definition emptyStore :: "unit Platform" where
  "emptyStore = \<lparr>localStorage = Map.empty, JSON_parse = (\<lambda>raw. None),
                  parseInt = (\<lambda>s. None), Number_toString = (\<lambda>n. []), Date_now = 0\<rparr>"

definition brokenStore :: "unit Platform" where
  "brokenStore = emptyStore\<lparr>localStorage := [''attempt_paper.pdf-0'' \<mapsto> ''{'']\<rparr>"

section \<open>Properties of the scoring loop\<close>

text \<open>The loop is a left fold, and every step adds fixed amounts to the four counters.\<close>

lemma scoreLoop_append: "scoreLoop att (xs @ ys) t = scoreLoop att ys (scoreLoop att xs t)"
  by (induction xs arbitrary: t) simp_all

lemma scoreStep_add:
  "nMcqCorrect (scoreStep att q t) = nMcqCorrect t + nMcqCorrect (scoreStep att q zeroTally)"
  "nMcqWrong (scoreStep att q t) = nMcqWrong t + nMcqWrong (scoreStep att q zeroTally)"
  "nTitaCorrect (scoreStep att q t) = nTitaCorrect t + nTitaCorrect (scoreStep att q zeroTally)"
  "nTotalAnswered (scoreStep att q t) = nTotalAnswered t + nTotalAnswered (scoreStep att q zeroTally)"
  by (simp_all add: scoreStep_def zeroTally_def Let_def split: option.splits QuestionType.splits)

lemma scoreLoop_mcqCorrect:
  "nMcqCorrect (scoreLoop att qs t) = nMcqCorrect t + nMcqCorrect (scoreLoop att qs zeroTally)"
proof (induction qs arbitrary: t)
  case Nil
  show ?case by (simp add: zeroTally_def)
next
  case (Cons q qs)
  have "nMcqCorrect (scoreLoop att (q # qs) t)
        = nMcqCorrect (scoreStep att q t) + nMcqCorrect (scoreLoop att qs zeroTally)"
    using Cons.IH [of "scoreStep att q t"] by simp
  also have "\<dots> = nMcqCorrect t + (nMcqCorrect (scoreStep att q zeroTally)
                     + nMcqCorrect (scoreLoop att qs zeroTally))"
    using scoreStep_add(1) [of att q t] by simp
  also have "nMcqCorrect (scoreStep att q zeroTally) + nMcqCorrect (scoreLoop att qs zeroTally)
             = nMcqCorrect (scoreLoop att (q # qs) zeroTally)"
    using Cons.IH [of "scoreStep att q zeroTally"] by simp
  finally show ?case .
qed

lemma scoreLoop_mcqWrong:
  "nMcqWrong (scoreLoop att qs t) = nMcqWrong t + nMcqWrong (scoreLoop att qs zeroTally)"
proof (induction qs arbitrary: t)
  case Nil
  show ?case by (simp add: zeroTally_def)
next
  case (Cons q qs)
  show ?case
    using Cons.IH [of "scoreStep att q t"] Cons.IH [of "scoreStep att q zeroTally"]
      scoreStep_add(2) [of att q t]
    by simp
qed

lemma scoreLoop_titaCorrect:
  "nTitaCorrect (scoreLoop att qs t) = nTitaCorrect t + nTitaCorrect (scoreLoop att qs zeroTally)"
proof (induction qs arbitrary: t)
  case Nil
  show ?case by (simp add: zeroTally_def)
next
  case (Cons q qs)
  show ?case
    using Cons.IH [of "scoreStep att q t"] Cons.IH [of "scoreStep att q zeroTally"]
      scoreStep_add(3) [of att q t]
    by simp
qed

lemma scoreLoop_totalAnswered:
  "nTotalAnswered (scoreLoop att qs t)
   = nTotalAnswered t + nTotalAnswered (scoreLoop att qs zeroTally)"
proof (induction qs arbitrary: t)
  case Nil
  show ?case by (simp add: zeroTally_def)
next
  case (Cons q qs)
  show ?case
    using Cons.IH [of "scoreStep att q t"] Cons.IH [of "scoreStep att q zeroTally"]
      scoreStep_add(4) [of att q t]
    by simp
qed

text \<open>Inserting one question anywhere adds its own step to each counter.\<close>

lemma scoreLoop_insert:
  "nMcqCorrect (scoreLoop att (xs @ q # ys) zeroTally)
   = nMcqCorrect (scoreLoop att (xs @ ys) zeroTally) + nMcqCorrect (scoreStep att q zeroTally)"
  "nMcqWrong (scoreLoop att (xs @ q # ys) zeroTally)
   = nMcqWrong (scoreLoop att (xs @ ys) zeroTally) + nMcqWrong (scoreStep att q zeroTally)"
  "nTitaCorrect (scoreLoop att (xs @ q # ys) zeroTally)
   = nTitaCorrect (scoreLoop att (xs @ ys) zeroTally) + nTitaCorrect (scoreStep att q zeroTally)"
  "nTotalAnswered (scoreLoop att (xs @ q # ys) zeroTally)
   = nTotalAnswered (scoreLoop att (xs @ ys) zeroTally) + nTotalAnswered (scoreStep att q zeroTally)"
proof -
  let ?a = "scoreLoop att xs zeroTally"
  show "nMcqCorrect (scoreLoop att (xs @ q # ys) zeroTally)
   = nMcqCorrect (scoreLoop att (xs @ ys) zeroTally) + nMcqCorrect (scoreStep att q zeroTally)"
    using scoreLoop_mcqCorrect [of att ys "scoreStep att q ?a"] scoreLoop_mcqCorrect [of att ys ?a]
      scoreStep_add(1) [of att q ?a]
    by (simp add: scoreLoop_append)
  show "nMcqWrong (scoreLoop att (xs @ q # ys) zeroTally)
   = nMcqWrong (scoreLoop att (xs @ ys) zeroTally) + nMcqWrong (scoreStep att q zeroTally)"
    using scoreLoop_mcqWrong [of att ys "scoreStep att q ?a"] scoreLoop_mcqWrong [of att ys ?a]
      scoreStep_add(2) [of att q ?a]
    by (simp add: scoreLoop_append)
  show "nTitaCorrect (scoreLoop att (xs @ q # ys) zeroTally)
   = nTitaCorrect (scoreLoop att (xs @ ys) zeroTally) + nTitaCorrect (scoreStep att q zeroTally)"
    using scoreLoop_titaCorrect [of att ys "scoreStep att q ?a"] scoreLoop_titaCorrect [of att ys ?a]
      scoreStep_add(3) [of att q ?a]
    by (simp add: scoreLoop_append)
  show "nTotalAnswered (scoreLoop att (xs @ q # ys) zeroTally)
   = nTotalAnswered (scoreLoop att (xs @ ys) zeroTally) + nTotalAnswered (scoreStep att q zeroTally)"
    using scoreLoop_totalAnswered [of att ys "scoreStep att q ?a"]
      scoreLoop_totalAnswered [of att ys ?a] scoreStep_add(4) [of att q ?a]
    by (simp add: scoreLoop_append)
qed

lemma scoreStep_nullKey:
  assumes "answerKey q = None" and "isAnswered (answers att (qid q))"
  shows "scoreStep att q zeroTally =
           (case qtype q of
              MCQ \<Rightarrow> \<lparr>nMcqCorrect = 0, nMcqWrong = 1, nTitaCorrect = 0, nTotalAnswered = 1\<rparr>
            | TITA \<Rightarrow> \<lparr>nMcqCorrect = 0, nMcqWrong = 0, nTitaCorrect = 0, nTotalAnswered = 1\<rparr>)"
  using assms
  by (auto simp: scoreStep_def isCorrect_def zeroTally_def isAnswered_def
           split: option.splits QuestionType.splits)

subsection \<open>Questions without an answer key\<close>

text \<open>
  Claim C1, as amended. Take a question \<open>q\<close> whose \<open>answerKey\<close> is null and whose answer
  is non-empty after trimming, at any position of the question list. Compared with the
  score of the list without \<open>q\<close>: \<open>totalAnswered\<close> is one higher, and \<open>mcqCorrect\<close> and
  \<open>titaCorrect\<close> are the same. If \<open>q\<close> is a TITA question, \<open>mcqWrong\<close> and \<open>raw\<close> are the
  same too. If \<open>q\<close> is an MCQ question, it is counted as wrong: \<open>mcqWrong\<close> is one higher
  and \<open>raw\<close> changes by \<open>marking.mcq.wrong\<close>.
\<close>

theorem nullKey_contribution:
  assumes "answerKey q = None" and "isAnswered (answers att (qid q))"
  shows "let S = calculateScore att (qs\<lparr>questions := xs @ q # ys\<rparr>);
             S0 = calculateScore att (qs\<lparr>questions := xs @ ys\<rparr>)
         in totalAnswered S = totalAnswered S0 + 1
            \<and> mcqCorrect S = mcqCorrect S0
            \<and> titaCorrect S = titaCorrect S0
            \<and> (qtype q = TITA \<longrightarrow> mcqWrong S = mcqWrong S0 \<and> raw S = raw S0)
            \<and> (qtype q = MCQ \<longrightarrow> mcqWrong S = mcqWrong S0 + 1
                  \<and> raw S = raw S0 + wrong (mcq (marking (meta qs))))"
  using scoreStep_nullKey [OF assms]
  by (cases "qtype q") (simp_all add: calculateScore_def Let_def scoreLoop_insert algebra_simps)

text \<open>The theorem of C1 at question 3, an MCQ question without a key, answered \<open>A\<close>.\<close>

theorem nullKey_contribution_witness:
  "answerKey \<lparr>qid = 3, qtype = MCQ, answerKey = None\<rparr> = None
   \<and> isAnswered (answers (sampleAttempt [3 \<mapsto> ''A''] Map.empty) (qid \<lparr>qid = 3, qtype = MCQ, answerKey = None\<rparr>))
   \<and> mcqWrong (calculateScore (sampleAttempt [3 \<mapsto> ''A''] Map.empty)
         (sampleSet [\<lparr>qid = 3, qtype = MCQ, answerKey = None\<rparr>]))
       = mcqWrong (calculateScore (sampleAttempt [3 \<mapsto> ''A''] Map.empty) (sampleSet [])) + 1"
proof -
  let ?q = "\<lparr>qid = 3, qtype = MCQ, answerKey = None\<rparr>"
  let ?att = "sampleAttempt [3 \<mapsto> ''A''] Map.empty"
  have h1: "answerKey ?q = None" by simp
  have h2: "isAnswered (answers ?att (qid ?q))"
    by (simp add: sampleAttempt_def isAnswered_def trim_def isWhiteSpace_def)
  show ?thesis
    using h1 h2 nullKey_contribution [OF h1 h2, where qs = "sampleSet []" and xs = "[]" and ys = "[]"]
    by (simp add: Let_def sampleSet_def)
qed

text \<open>
  Against C1 as stated: question 3 is an MCQ question with a null key, answered \<open>A\<close>.
  Under the default marking it is counted in \<open>mcqWrong\<close> and takes one mark off \<open>raw\<close>;
  without the question both are 0.
\<close>

theorem nullKey_mcq_counterexample:
  "calculateScore (sampleAttempt [3 \<mapsto> ''A''] Map.empty)
     (sampleSet [\<lparr>qid = 3, qtype = MCQ, answerKey = None\<rparr>])
   = \<lparr>raw = - 1, mcqCorrect = 0, mcqWrong = 1, titaCorrect = 0, totalAnswered = 1\<rparr>
   \<and> calculateScore (sampleAttempt [3 \<mapsto> ''A''] Map.empty) (sampleSet [])
   = \<lparr>raw = 0, mcqCorrect = 0, mcqWrong = 0, titaCorrect = 0, totalAnswered = 0\<rparr>"
  by (simp add: calculateScore_def sampleAttempt_def sampleSet_def defaultMarking_def
        scoreStep_def isAnswered_def isCorrect_def trim_def isWhiteSpace_def zeroTally_def)

subsection \<open>When an answer is judged correct\<close>

lemma dropWhile_all: "\<forall>x\<in>set xs. P x \<Longrightarrow> dropWhile P xs = []"
  by simp

lemma trim_outer:
  assumes "list_all isWhiteSpace l" and "list_all isWhiteSpace r"
  shows "trim (l @ a @ r) = trim a"
  using assms by (auto simp: trim_def dropWhile_append list_all_iff dropWhile_all)

lemma isWhiteSpace_code: "isWhiteSpace c \<longleftrightarrow> (of_char c :: nat) \<in> {9, 10, 11, 12, 13, 32, 160}"
  unfolding isWhiteSpace_def
  by (simp add: of_char_eq_iff [where ?'a = nat, symmetric] del: of_char_eq_iff)

lemma lowerChar_ws: "isWhiteSpace (lowerChar c) \<longleftrightarrow> isWhiteSpace c"
proof -
  have b: "(of_char c :: nat) < 256" by simp
  show ?thesis
    using b unfolding isWhiteSpace_code lowerChar_def Let_def
    by (auto simp: of_char_of)
qed

lemma trim_hd: "trim a \<noteq> [] \<Longrightarrow> \<not> isWhiteSpace (hd (trim a))"
proof -
  assume ne: "trim a \<noteq> []"
  let ?d = "dropWhile isWhiteSpace a"
  let ?e = "dropWhile isWhiteSpace (rev ?d)"
  have t: "trim a = rev ?e" by (simp add: trim_def)
  have e: "?e \<noteq> []" using ne t by simp
  then have "\<not> isWhiteSpace (hd ?e)" by (rule hd_dropWhile)
  have d: "?d \<noteq> []"
  proof
    assume "?d = []"
    then have "?e = []" by (simp only: rev.simps dropWhile.simps)
    with e show False by contradiction
  qed
  then have nd: "\<not> isWhiteSpace (hd ?d)" by (rule hd_dropWhile)
  obtain us where us: "rev ?d = us @ ?e"
    by (metis takeWhile_dropWhile_id)
  then have "?d = rev ?e @ rev us" by (metis rev_append rev_rev_ident)
  then have "hd ?d = hd (rev ?e)" using e by (metis hd_append2 rev_is_Nil_conv)
  then show ?thesis using nd t by simp
qed

lemma trim_last: "trim a \<noteq> [] \<Longrightarrow> \<not> isWhiteSpace (last (trim a))"
proof -
  assume ne: "trim a \<noteq> []"
  let ?e = "dropWhile isWhiteSpace (rev (dropWhile isWhiteSpace a))"
  have t: "trim a = rev ?e" by (simp add: trim_def)
  have e: "?e \<noteq> []" using ne t by simp
  then have "\<not> isWhiteSpace (hd ?e)" by (rule hd_dropWhile)
  then show ?thesis using t e by (simp add: last_rev)
qed

lemma padded_key_never_matches:
  assumes "trim a \<noteq> []" and "k \<noteq> []" and "isWhiteSpace (hd k) \<or> isWhiteSpace (last k)"
  shows "\<not> isCorrect a (Some k)"
proof
  assume "isCorrect a (Some k)"
  then have eq: "map lowerChar (trim a) = map lowerChar k"
    by (simp add: isCorrect_def toLowerCase_def)
  have "lowerChar (hd (trim a)) = lowerChar (hd k)"
    using eq assms(1,2) by (metis hd_map)
  moreover have "lowerChar (last (trim a)) = lowerChar (last k)"
    using eq assms(1,2) by (metis last_map)
  ultimately show False
    using assms(3) trim_hd [OF assms(1)] trim_last [OF assms(1)] lowerChar_ws by metis
qed

lemma isAnswered_outer:
  assumes "list_all isWhiteSpace l" and "list_all isWhiteSpace r"
  shows "isAnswered (Some (l @ a @ r)) = isAnswered (Some a)"
proof -
  have "trim a \<noteq> [] \<Longrightarrow> a \<noteq> []" by (auto simp: trim_def)
  then show ?thesis using trim_outer [OF assms, of a] by (auto simp: isAnswered_def)
qed

text \<open>
  Claim C2, as amended. For an answered question with a non-null key \<open>k\<close>, the loop
  counts the answer \<open>a\<close> as correct if and only if the trimmed, lowercased answer equals
  the lowercased key; the key is not trimmed. White space around the answer never
  changes the step. White space at either end of the key does: such a key is matched
  by no answer.
\<close>

theorem answer_judged_correct_iff:
  assumes "answers att (qid q) = Some a" and "isAnswered (Some a)" and "answerKey q = Some k"
  shows "scoreStep att q t =
           (if toLowerCase (trim a) = toLowerCase k
            then (case qtype q of
                    MCQ \<Rightarrow> t\<lparr>nTotalAnswered := nTotalAnswered t + 1, nMcqCorrect := nMcqCorrect t + 1\<rparr>
                  | TITA \<Rightarrow> t\<lparr>nTotalAnswered := nTotalAnswered t + 1, nTitaCorrect := nTitaCorrect t + 1\<rparr>)
            else (case qtype q of
                    MCQ \<Rightarrow> t\<lparr>nTotalAnswered := nTotalAnswered t + 1, nMcqWrong := nMcqWrong t + 1\<rparr>
                  | TITA \<Rightarrow> t\<lparr>nTotalAnswered := nTotalAnswered t + 1\<rparr>))
         \<and> (\<forall>l r. list_all isWhiteSpace l \<and> list_all isWhiteSpace r \<longrightarrow>
               scoreStep (att\<lparr>answers := (answers att)(qid q \<mapsto> l @ a @ r)\<rparr>) q t = scoreStep att q t)
         \<and> (k \<noteq> [] \<and> (isWhiteSpace (hd k) \<or> isWhiteSpace (last k)) \<longrightarrow>
               toLowerCase (trim a) \<noteq> toLowerCase k)"
proof (intro conjI allI impI)
  show "scoreStep att q t =
           (if toLowerCase (trim a) = toLowerCase k
            then (case qtype q of
                    MCQ \<Rightarrow> t\<lparr>nTotalAnswered := nTotalAnswered t + 1, nMcqCorrect := nMcqCorrect t + 1\<rparr>
                  | TITA \<Rightarrow> t\<lparr>nTotalAnswered := nTotalAnswered t + 1, nTitaCorrect := nTitaCorrect t + 1\<rparr>)
            else (case qtype q of
                    MCQ \<Rightarrow> t\<lparr>nTotalAnswered := nTotalAnswered t + 1, nMcqWrong := nMcqWrong t + 1\<rparr>
                  | TITA \<Rightarrow> t\<lparr>nTotalAnswered := nTotalAnswered t + 1\<rparr>))"
    using assms by (simp add: scoreStep_def isCorrect_def Let_def split: QuestionType.splits)
next
  fix l r
  assume ws: "list_all isWhiteSpace l \<and> list_all isWhiteSpace r"
  then have "isCorrect (l @ a @ r) (answerKey q) = isCorrect a (answerKey q)"
    and "isAnswered (Some (l @ a @ r)) = isAnswered (Some a)"
    by (simp_all add: isCorrect_def trim_outer isAnswered_outer split: option.splits)
  then show "scoreStep (att\<lparr>answers := (answers att)(qid q \<mapsto> l @ a @ r)\<rparr>) q t = scoreStep att q t"
    using assms(1) by (simp add: scoreStep_def Let_def split: QuestionType.splits)
next
  assume k: "k \<noteq> [] \<and> (isWhiteSpace (hd k) \<or> isWhiteSpace (last k))"
  have "trim a \<noteq> []" using assms(2) by (simp add: isAnswered_def)
  then have "\<not> isCorrect a (Some k)" using k by (intro padded_key_never_matches) simp_all
  then show "toLowerCase (trim a) \<noteq> toLowerCase k" by (simp add: isCorrect_def)
qed

text \<open>The theorem of C2 at the answer \<open>b\<close> between two spaces and the key \<open>B\<close>.\<close>

theorem answer_judged_correct_iff_witness:
  "answers (sampleAttempt [1 \<mapsto> '' b ''] Map.empty) (qid \<lparr>qid = 1, qtype = MCQ, answerKey = Some ''B''\<rparr>) = Some '' b ''
   \<and> isAnswered (Some '' b '')
   \<and> answerKey \<lparr>qid = 1, qtype = MCQ, answerKey = Some ''B''\<rparr> = Some ''B''
   \<and> scoreStep (sampleAttempt [1 \<mapsto> '' b ''] Map.empty) \<lparr>qid = 1, qtype = MCQ, answerKey = Some ''B''\<rparr> zeroTally
     = \<lparr>nMcqCorrect = 1, nMcqWrong = 0, nTitaCorrect = 0, nTotalAnswered = 1\<rparr>"
proof -
  let ?q = "\<lparr>qid = 1, qtype = MCQ, answerKey = Some ''B''\<rparr>"
  let ?att = "sampleAttempt [1 \<mapsto> '' b ''] Map.empty"
  have h1: "answers ?att (qid ?q) = Some '' b ''" by (simp add: sampleAttempt_def)
  have h2: "isAnswered (Some '' b '')" by (simp add: isAnswered_def trim_def isWhiteSpace_def)
  have h3: "answerKey ?q = Some ''B''" by simp
  have lo: "toLowerCase (trim '' b '') = toLowerCase ''B''"
    by (simp add: trim_def isWhiteSpace_def toLowerCase_def lowerChar_def char_of_def bit_Suc_0_iff)
  show ?thesis
    using h1 h2 h3 answer_judged_correct_iff [OF h1 h2 h3, of zeroTally, THEN conjunct1] lo
    by (simp add: zeroTally_def)
qed

text \<open>
  Against C2 as stated: the key \<open>B\<close> with a leading space and the answer \<open>B\<close> are equal
  once both are trimmed and lowercased, yet the answer is judged incorrect and counted
  in \<open>mcqWrong\<close>.
\<close>

theorem padded_key_counterexample:
  "toLowerCase (trim ''B'') = toLowerCase (trim '' B'')
   \<and> \<not> isCorrect ''B'' (Some '' B'')
   \<and> calculateScore (sampleAttempt [1 \<mapsto> ''B''] Map.empty)
        (sampleSet [\<lparr>qid = 1, qtype = MCQ, answerKey = Some '' B''\<rparr>])
      = \<lparr>raw = - 1, mcqCorrect = 0, mcqWrong = 1, titaCorrect = 0, totalAnswered = 1\<rparr>"
  by (simp add: calculateScore_def sampleAttempt_def sampleSet_def defaultMarking_def
        scoreStep_def isAnswered_def isCorrect_def trim_def isWhiteSpace_def zeroTally_def
        toLowerCase_def lowerChar_def char_of_def bit_Suc_0_iff)

subsection \<open>The two-question scenario\<close>

text \<open>
  Claim C5. With the marking \<open>{mcq:{correct:3,wrong:-1}, tita:{correct:3,wrong:0}}\<close>,
  question 1 (MCQ, key \<open>B\<close>) answered \<open>B\<close> and question 2 (TITA, key \<open>42\<close>) answered
  \<open>43\<close>, the score is \<open>{raw:3, mcqCorrect:1, mcqWrong:0, titaCorrect:0, totalAnswered:2}\<close>.
  In general an answered TITA question that is judged incorrect only increments
  \<open>totalAnswered\<close>: no counter that enters \<open>raw\<close> moves.
\<close>

theorem scenario_score:
  "calculateScore (sampleAttempt [1 \<mapsto> ''B'', 2 \<mapsto> ''43''] Map.empty)
     \<lparr>meta = \<lparr>marking = \<lparr>mcq = \<lparr>correct = 3, wrong = - 1\<rparr>, tita = \<lparr>correct = 3, wrong = 0\<rparr>\<rparr>\<rparr>,
      questions = [\<lparr>qid = 1, qtype = MCQ, answerKey = Some ''B''\<rparr>,
                   \<lparr>qid = 2, qtype = TITA, answerKey = Some ''42''\<rparr>]\<rparr>
   = \<lparr>raw = 3, mcqCorrect = 1, mcqWrong = 0, titaCorrect = 0, totalAnswered = 2\<rparr>
   \<and> (\<forall>att q a t. qtype q = TITA \<and> answers att (qid q) = Some a \<and> isAnswered (Some a)
          \<and> \<not> isCorrect a (answerKey q)
        \<longrightarrow> scoreStep att q t = t\<lparr>nTotalAnswered := nTotalAnswered t + 1\<rparr>)"
proof (intro conjI allI impI)
  show "calculateScore (sampleAttempt [1 \<mapsto> ''B'', 2 \<mapsto> ''43''] Map.empty)
     \<lparr>meta = \<lparr>marking = \<lparr>mcq = \<lparr>correct = 3, wrong = - 1\<rparr>, tita = \<lparr>correct = 3, wrong = 0\<rparr>\<rparr>\<rparr>,
      questions = [\<lparr>qid = 1, qtype = MCQ, answerKey = Some ''B''\<rparr>,
                   \<lparr>qid = 2, qtype = TITA, answerKey = Some ''42''\<rparr>]\<rparr>
   = \<lparr>raw = 3, mcqCorrect = 1, mcqWrong = 0, titaCorrect = 0, totalAnswered = 2\<rparr>"
    by (simp add: calculateScore_def sampleAttempt_def scoreStep_def isAnswered_def isCorrect_def
          trim_def isWhiteSpace_def zeroTally_def toLowerCase_def lowerChar_def char_of_def
          bit_Suc_0_iff)
next
  fix att :: Attempt and q :: Question and a t
  assume "qtype q = TITA \<and> answers att (qid q) = Some a \<and> isAnswered (Some a)
          \<and> \<not> isCorrect a (answerKey q)"
  then show "scoreStep att q t = t\<lparr>nTotalAnswered := nTotalAnswered t + 1\<rparr>"
    by (simp add: scoreStep_def)
qed

text \<open>The general part of C5 at question 2 of the scenario.\<close>

theorem scenario_score_witness:
  "scoreStep (sampleAttempt [1 \<mapsto> ''B'', 2 \<mapsto> ''43''] Map.empty)
     \<lparr>qid = 2, qtype = TITA, answerKey = Some ''42''\<rparr>
     \<lparr>nMcqCorrect = 1, nMcqWrong = 0, nTitaCorrect = 0, nTotalAnswered = 1\<rparr>
   = \<lparr>nMcqCorrect = 1, nMcqWrong = 0, nTitaCorrect = 0, nTotalAnswered = 2\<rparr>"
proof -
  let ?q = "\<lparr>qid = 2, qtype = TITA, answerKey = Some ''42''\<rparr>"
  let ?att = "sampleAttempt [1 \<mapsto> ''B'', 2 \<mapsto> ''43''] Map.empty"
  have h: "qtype ?q = TITA \<and> answers ?att (qid ?q) = Some ''43'' \<and> isAnswered (Some ''43'')
           \<and> \<not> isCorrect ''43'' (answerKey ?q)"
    by (simp add: sampleAttempt_def isAnswered_def isCorrect_def trim_def isWhiteSpace_def
          toLowerCase_def lowerChar_def)
  from scenario_score [THEN conjunct2, rule_format, OF h]
  show ?thesis by simp
qed

subsection \<open>The unused field of the marking scheme\<close>

text \<open>
  Claim C9. Two marking schemes that agree on \<open>mcq\<close> and on \<open>tita.correct\<close>, and so can
  differ only in \<open>tita.wrong\<close>, give equal scores for every attempt and question list.
\<close>

theorem tita_wrong_irrelevant:
  assumes "mcq m1 = mcq m2" and "correct (tita m1) = correct (tita m2)"
  shows "calculateScore att \<lparr>meta = \<lparr>marking = m1\<rparr>, questions = qs\<rparr>
         = calculateScore att \<lparr>meta = \<lparr>marking = m2\<rparr>, questions = qs\<rparr>"
  using assms by (simp add: calculateScore_def)

text \<open>The theorem of C9 at the default marking and the same marking with \<open>tita.wrong = -2\<close>.\<close>

theorem tita_wrong_irrelevant_witness:
  "calculateScore (sampleAttempt [2 \<mapsto> ''43''] Map.empty)
     \<lparr>meta = \<lparr>marking = defaultMarking\<rparr>,
      questions = [\<lparr>qid = 2, qtype = TITA, answerKey = Some ''42''\<rparr>]\<rparr>
   = calculateScore (sampleAttempt [2 \<mapsto> ''43''] Map.empty)
     \<lparr>meta = \<lparr>marking = defaultMarking\<lparr>tita := \<lparr>correct = 3, wrong = - 2\<rparr>\<rparr>\<rparr>,
      questions = [\<lparr>qid = 2, qtype = TITA, answerKey = Some ''42''\<rparr>]\<rparr>"
proof -
  have h1: "mcq defaultMarking = mcq (defaultMarking\<lparr>tita := \<lparr>correct = 3, wrong = - 2\<rparr>\<rparr>)"
    by simp
  have h2: "correct (tita defaultMarking)
            = correct (tita (defaultMarking\<lparr>tita := \<lparr>correct = 3, wrong = - 2\<rparr>\<rparr>))"
    by (simp add: defaultMarking_def)
  show ?thesis by (rule tita_wrong_irrelevant [OF h1 h2])
qed

subsection \<open>White space as an answer\<close>

lemma trim_whitespace_only: "list_all isWhiteSpace v \<Longrightarrow> trim v = []"
  by (simp add: trim_def list_all_iff dropWhile_all)

text \<open>
  Claim C10. Let \<open>v\<close> be a non-empty answer made of white space only, such as one space.
  Setting it gives the question the status \<open>Answered\<close>, or \<open>AnsweredAndMarked\<close> if it
  was marked before. On the resulting attempt the scoring loop skips the question: its
  step changes no counter, and the score is the same as for the question list without
  the question.
\<close>

theorem whitespace_answer_status_mismatch:
  assumes "v \<noteq> []" and "list_all isWhiteSpace v"
  shows "statuses (handleAnswerChange i v att) i
           = Some (if statuses att i = Some MarkedForReview \<or> statuses att i = Some AnsweredAndMarked
                   then AnsweredAndMarked else Answered)
         \<and> (\<forall>q t. qid q = i \<longrightarrow> scoreStep (handleAnswerChange i v att) q t = t)
         \<and> (\<forall>q qs xs ys. qid q = i \<longrightarrow>
               calculateScore (handleAnswerChange i v att) (qs\<lparr>questions := xs @ q # ys\<rparr>)
               = calculateScore (handleAnswerChange i v att) (qs\<lparr>questions := xs @ ys\<rparr>))"
proof -
  let ?att = "handleAnswerChange i v att"
  have ans: "answers ?att i = Some v" by (simp add: handleAnswerChange_def Let_def)
  have na: "\<not> isAnswered (Some v)"
    using assms(2) by (simp add: isAnswered_def trim_whitespace_only)
  have step: "scoreStep ?att q t = t" if "qid q = i" for q t
    using that ans na by (simp add: scoreStep_def)
  have st: "statuses ?att i
           = Some (if statuses att i = Some MarkedForReview \<or> statuses att i = Some AnsweredAndMarked
                   then AnsweredAndMarked else Answered)"
    using assms(1) by (simp add: handleAnswerChange_def Let_def)
  have sc: "calculateScore ?att (qs\<lparr>questions := xs @ q # ys\<rparr>)
            = calculateScore ?att (qs\<lparr>questions := xs @ ys\<rparr>)" if "qid q = i" for q qs xs ys
    using step [OF that] by (simp add: calculateScore_def scoreLoop_append)
  show ?thesis using st step sc by blast
qed

text \<open>The theorem of C10 at the answer of one space to question 1.\<close>

theorem whitespace_answer_status_mismatch_witness:
  "statuses (handleAnswerChange 1 '' '' (sampleAttempt Map.empty [1 \<mapsto> NotAnswered])) 1 = Some Answered
   \<and> statuses (handleAnswerChange 1 '' '' (sampleAttempt Map.empty [1 \<mapsto> MarkedForReview])) 1
       = Some AnsweredAndMarked
   \<and> calculateScore (handleAnswerChange 1 '' '' (sampleAttempt Map.empty [1 \<mapsto> NotAnswered]))
        (sampleSet [\<lparr>qid = 1, qtype = TITA, answerKey = Some ''42''\<rparr>])
      = \<lparr>raw = 0, mcqCorrect = 0, mcqWrong = 0, titaCorrect = 0, totalAnswered = 0\<rparr>"
proof -
  let ?q = "\<lparr>qid = 1, qtype = TITA, answerKey = Some ''42''\<rparr>"
  have h1: "'' '' \<noteq> []" by simp
  have h2: "list_all isWhiteSpace '' ''" by (simp add: isWhiteSpace_def)
  have e: "calculateScore (handleAnswerChange 1 '' '' (sampleAttempt Map.empty [1 \<mapsto> NotAnswered])) (sampleSet [])
           = \<lparr>raw = 0, mcqCorrect = 0, mcqWrong = 0, titaCorrect = 0, totalAnswered = 0\<rparr>"
    by (simp add: calculateScore_def sampleSet_def zeroTally_def)
  have q: "qid ?q = 1" by simp
  note w1 = whitespace_answer_status_mismatch [OF h1 h2, where i = 1 and att = "sampleAttempt Map.empty [1 \<mapsto> NotAnswered]"]
  note w2 = whitespace_answer_status_mismatch [OF h1 h2, where i = 1 and att = "sampleAttempt Map.empty [1 \<mapsto> MarkedForReview]"]
  have a: "statuses (handleAnswerChange 1 '' '' (sampleAttempt Map.empty [1 \<mapsto> NotAnswered])) 1 = Some Answered"
    using w1 [THEN conjunct1] by (simp add: sampleAttempt_def)
  have b: "statuses (handleAnswerChange 1 '' '' (sampleAttempt Map.empty [1 \<mapsto> MarkedForReview])) 1 = Some AnsweredAndMarked"
    using w2 [THEN conjunct1] by (simp add: sampleAttempt_def)
  let ?att = "handleAnswerChange 1 '' '' (sampleAttempt Map.empty [1 \<mapsto> NotAnswered])"
  from w1 [THEN conjunct2, THEN conjunct2]
  have "qid ?q = 1 \<longrightarrow>
          calculateScore ?att ((sampleSet [])\<lparr>questions := [] @ ?q # []\<rparr>)
          = calculateScore ?att ((sampleSet [])\<lparr>questions := [] @ []\<rparr>)"
    by blast
  then have c: "calculateScore ?att (sampleSet [?q]) = calculateScore ?att (sampleSet [])"
    by (simp add: sampleSet_def)
  show ?thesis using a b c e by simp
qed

section \<open>Properties of starting an attempt\<close>

lemma fold_NotVisited:
  "fold (\<lambda>q m. m(qid q \<mapsto> NotVisited)) qs m0 i
   = (if i \<in> qid ` set qs then Some NotVisited else m0 i)"
  by (induction qs arbitrary: m0) auto

lemma initialStatuses_apply:
  "initialStatuses q0 qs i
   = (if i = qid q0 then Some NotAnswered
      else if i \<in> qid ` set qs then Some NotVisited else None)"
  by (simp add: initialStatuses_def fold_NotVisited)

text \<open>
  Claim C3, as amended. Let the question set be non-empty. If the store holds no blob
  under the session's attempt key, or the empty string, \<open>startExam\<close> starts a fresh
  attempt: the first question's id is at \<open>NotAnswered\<close>, every other id of the set at
  \<open>NotVisited\<close>, and no other id has a status. If the store holds a non-empty blob that
  \<open>JSON.parse\<close> rejects, \<open>startExam\<close> throws the \<open>SyntaxError\<close> and changes nothing: the
  blob is not discarded and no attempt is started.
\<close>

theorem startExam_absent_or_unparsable:
  assumes "questions qSet = q0 # rest"
  shows "(\<not> truthy (localStorage p (''attempt_'' @ sid)) \<longrightarrow>
            startExam p qSet sid app
              = Inr (app\<lparr>attempt := Some (Fresh (newAttempt p sid (initialStatuses q0 (q0 # rest)))),
                         currentQuestionIndex := 0, view := Exam\<rparr>)
            \<and> (\<forall>i. statuses (newAttempt p sid (initialStatuses q0 (q0 # rest))) i
                   = (if i = qid q0 then Some NotAnswered
                      else if i \<in> qid ` set rest then Some NotVisited else None)))
         \<and> (\<forall>raw. localStorage p (''attempt_'' @ sid) = Some raw \<and> raw \<noteq> []
                  \<and> JSON_parse p raw = None \<longrightarrow>
               startExam p qSet sid app = Inl SyntaxError)"
  using assms
  by (auto simp: startExam_def Let_def truthy_def newAttempt_def initialStatuses_apply
           split: option.splits)

text \<open>
  The theorem of C3 at a paper of two questions, once with the empty store and once with
  the store that holds the text \<open>{\<close>.
\<close>

theorem startExam_absent_or_unparsable_witness:
  "startExam emptyStore (sampleSet [\<lparr>qid = 1, qtype = MCQ, answerKey = Some ''B''\<rparr>,
                                    \<lparr>qid = 2, qtype = TITA, answerKey = Some ''42''\<rparr>])
     ''paper.pdf-0'' (initialApp\<lparr>view := Processing\<rparr>)
   = Inr \<lparr>view = Exam, processingError = None,
          attempt = Some (Fresh (sampleAttempt Map.empty [2 \<mapsto> NotVisited, 1 \<mapsto> NotAnswered])),
          currentQuestionIndex = 0\<rparr>
   \<and> startExam brokenStore (sampleSet [\<lparr>qid = 1, qtype = MCQ, answerKey = Some ''B''\<rparr>,
                                    \<lparr>qid = 2, qtype = TITA, answerKey = Some ''42''\<rparr>])
     ''paper.pdf-0'' (initialApp\<lparr>view := Processing\<rparr>) = Inl SyntaxError"
proof -
  let ?q1 = "\<lparr>qid = 1, qtype = MCQ, answerKey = Some ''B''\<rparr>"
  let ?q2 = "\<lparr>qid = 2, qtype = TITA, answerKey = Some ''42''\<rparr>"
  let ?app = "initialApp\<lparr>view := Processing\<rparr> :: unit App"
  have h: "questions (sampleSet [?q1, ?q2]) = ?q1 # [?q2]" by (simp add: sampleSet_def)
  have a: "\<not> truthy (localStorage emptyStore (''attempt_'' @ ''paper.pdf-0''))"
    by (simp add: emptyStore_def truthy_def)
  have b: "localStorage brokenStore (''attempt_'' @ ''paper.pdf-0'') = Some ''{'' \<and> ''{'' \<noteq> []
           \<and> JSON_parse brokenStore ''{'' = None"
    by (simp add: brokenStore_def emptyStore_def)
  note w = startExam_absent_or_unparsable [OF h]
  have 1: "startExam emptyStore (sampleSet [?q1, ?q2]) ''paper.pdf-0'' ?app
           = Inr (?app\<lparr>attempt := Some (Fresh (newAttempt emptyStore ''paper.pdf-0'' (initialStatuses ?q1 (?q1 # [?q2])))),
                         currentQuestionIndex := 0, view := Exam\<rparr>)"
    using w [where p = emptyStore and sid = "''paper.pdf-0''" and app = ?app, THEN conjunct1] a
    by blast
  have 2: "startExam brokenStore (sampleSet [?q1, ?q2]) ''paper.pdf-0'' ?app = Inl SyntaxError"
    using w [where p = brokenStore and sid = "''paper.pdf-0''" and app = ?app, THEN conjunct2] b
    by blast
  have 3: "newAttempt emptyStore ''paper.pdf-0'' (initialStatuses ?q1 (?q1 # [?q2]))
           = sampleAttempt Map.empty [2 \<mapsto> NotVisited, 1 \<mapsto> NotAnswered]"
    by (simp add: newAttempt_def sampleAttempt_def emptyStore_def initialStatuses_def
          EXAM_DURATION_SECONDS_def fun_upd_twist)
  show ?thesis using 1 2 3 by (simp add: initialApp_def)
qed

text \<open>
  Against C3 as stated: the persisted blob is the text \<open>{\<close>, which is not
  deserializable. \<open>startExam\<close> ends with the exception instead of a fresh attempt.
\<close>

theorem unparsable_blob_counterexample:
  "localStorage brokenStore ''attempt_paper.pdf-0'' = Some ''{''
   \<and> JSON_parse brokenStore ''{'' = None
   \<and> startExam brokenStore (sampleSet [\<lparr>qid = 1, qtype = MCQ, answerKey = Some ''B''\<rparr>])
        ''paper.pdf-0'' (initialApp\<lparr>view := Processing\<rparr>) = Inl SyntaxError"
  by (simp add: startExam_def brokenStore_def emptyStore_def sampleSet_def truthy_def)

text \<open>
  Claim C4, as amended. \<open>startExam\<close> refuses exactly the empty question set: it records
  the error message, goes back to the upload view and leaves the attempt as it was.
  Every non-empty question set is accepted, with or without duplicate ids: when no blob
  is stored, the exam view is entered with a new attempt in progress that has no answers
  and no score, and whose status map has exactly one entry per distinct id of the set,
  \<open>NotAnswered\<close> for the first question's id and \<open>NotVisited\<close> for every other.
\<close>

theorem startExam_refuses_empty_only:
  "(questions qSet = [] \<longrightarrow>
      startExam p qSet sid app
        = Inr (app\<lparr>processingError := Some noQuestionsMessage, view := Upload\<rparr>))
   \<and> (questions qSet \<noteq> [] \<and> \<not> truthy (localStorage p (''attempt_'' @ sid)) \<longrightarrow>
        (\<exists>a. startExam p qSet sid app
                = Inr (app\<lparr>attempt := Some (Fresh a), currentQuestionIndex := 0, view := Exam\<rparr>)
              \<and> status a = inProgress
              \<and> score a = None
              \<and> answers a = Map.empty
              \<and> dom (statuses a) = qid ` set (questions qSet)
              \<and> (\<forall>i \<in> qid ` set (questions qSet).
                    statuses a i
                      = Some (if i = qid (hd (questions qSet)) then NotAnswered else NotVisited))))"
proof (intro conjI impI)
  assume "questions qSet = []"
  then show "startExam p qSet sid app
        = Inr (app\<lparr>processingError := Some noQuestionsMessage, view := Upload\<rparr>)"
    by (simp add: startExam_def)
next
  assume h: "questions qSet \<noteq> [] \<and> \<not> truthy (localStorage p (''attempt_'' @ sid))"
  then obtain q0 rest where qs: "questions qSet = q0 # rest"
    by (cases "questions qSet") auto
  let ?a = "newAttempt p sid (initialStatuses q0 (q0 # rest))"
  have st: "statuses ?a = initialStatuses q0 (q0 # rest)" by (simp add: newAttempt_def)
  have run: "startExam p qSet sid app
          = Inr (app\<lparr>attempt := Some (Fresh ?a), currentQuestionIndex := 0, view := Exam\<rparr>)"
    using h qs by (auto simp: startExam_def Let_def truthy_def split: option.splits)
  have d: "dom (statuses ?a) = qid ` set (questions qSet)"
    unfolding st qs by (auto simp: dom_def initialStatuses_apply)
  have m: "\<forall>i \<in> qid ` set (questions qSet).
             statuses ?a i = Some (if i = qid (hd (questions qSet)) then NotAnswered else NotVisited)"
    unfolding st qs by (auto simp: initialStatuses_apply)
  have o: "status ?a = inProgress \<and> score ?a = None \<and> answers ?a = Map.empty"
    by (simp add: newAttempt_def)
  show "\<exists>a. startExam p qSet sid app
                = Inr (app\<lparr>attempt := Some (Fresh a), currentQuestionIndex := 0, view := Exam\<rparr>)
              \<and> status a = inProgress
              \<and> score a = None
              \<and> answers a = Map.empty
              \<and> dom (statuses a) = qid ` set (questions qSet)
              \<and> (\<forall>i \<in> qid ` set (questions qSet).
                    statuses a i
                      = Some (if i = qid (hd (questions qSet)) then NotAnswered else NotVisited))"
    using run d m o by blast
qed

text \<open>
  The theorem of C4 at the empty paper and at a paper of three questions, the first and
  the last of which share the id 1.
\<close>

theorem startExam_refuses_empty_only_witness:
  "startExam emptyStore (sampleSet []) ''paper.pdf-0'' (initialApp\<lparr>view := Processing\<rparr>)
   = Inr \<lparr>view = Upload, processingError = Some noQuestionsMessage, attempt = None,
          currentQuestionIndex = 0\<rparr>
   \<and> \<not> distinct (map qid [\<lparr>qid = 1, qtype = MCQ, answerKey = Some ''B''\<rparr>,
                            \<lparr>qid = 2, qtype = TITA, answerKey = Some ''42''\<rparr>,
                            \<lparr>qid = 1, qtype = MCQ, answerKey = None\<rparr>])
   \<and> (\<exists>a. startExam emptyStore
             (sampleSet [\<lparr>qid = 1, qtype = MCQ, answerKey = Some ''B''\<rparr>,
                         \<lparr>qid = 2, qtype = TITA, answerKey = Some ''42''\<rparr>,
                         \<lparr>qid = 1, qtype = MCQ, answerKey = None\<rparr>])
             ''paper.pdf-0'' (initialApp\<lparr>view := Processing\<rparr>)
           = Inr \<lparr>view = Exam, processingError = None, attempt = Some (Fresh a),
                  currentQuestionIndex = 0\<rparr>
         \<and> status a = inProgress
         \<and> dom (statuses a) = {1, 2}
         \<and> statuses a 1 = Some NotAnswered
         \<and> statuses a 2 = Some NotVisited)"
proof -
  let ?q1 = "\<lparr>qid = 1, qtype = MCQ, answerKey = Some ''B''\<rparr>"
  let ?q2 = "\<lparr>qid = 2, qtype = TITA, answerKey = Some ''42''\<rparr>"
  let ?q3 = "\<lparr>qid = 1, qtype = MCQ, answerKey = None\<rparr>"
  let ?set = "sampleSet [?q1, ?q2, ?q3]"
  let ?app = "initialApp\<lparr>view := Processing\<rparr> :: unit App"
  have e: "questions (sampleSet []) = []" by (simp add: sampleSet_def)
  have n: "questions ?set \<noteq> []
           \<and> \<not> truthy (localStorage emptyStore (''attempt_'' @ ''paper.pdf-0''))"
    by (simp add: sampleSet_def emptyStore_def truthy_def)
  have qs: "qid ` set (questions ?set) = {1, 2}" "qid (hd (questions ?set)) = 1"
    by (auto simp: sampleSet_def)
  have 1: "startExam emptyStore (sampleSet []) ''paper.pdf-0'' ?app
           = Inr (?app\<lparr>processingError := Some noQuestionsMessage, view := Upload\<rparr>)"
    using startExam_refuses_empty_only
            [where qSet = "sampleSet []" and p = emptyStore and sid = "''paper.pdf-0''" and app = ?app,
             THEN conjunct1] e
    by blast
  from startExam_refuses_empty_only
         [where qSet = ?set and p = emptyStore and sid = "''paper.pdf-0''" and app = ?app,
          THEN conjunct2] n
  obtain a where a:
    "startExam emptyStore ?set ''paper.pdf-0'' ?app
       = Inr (?app\<lparr>attempt := Some (Fresh a), currentQuestionIndex := 0, view := Exam\<rparr>)"
    "status a = inProgress"
    "dom (statuses a) = qid ` set (questions ?set)"
    "\<forall>i \<in> qid ` set (questions ?set).
        statuses a i = Some (if i = qid (hd (questions ?set)) then NotAnswered else NotVisited)"
    by blast
  have s1: "statuses a 1 = Some NotAnswered" and s2: "statuses a 2 = Some NotVisited"
    using a(4) unfolding qs by simp_all
  have d: "dom (statuses a) = {1, 2}" using a(3) unfolding qs .
  have 2: "\<exists>a. startExam emptyStore ?set ''paper.pdf-0'' ?app
           = Inr \<lparr>view = Exam, processingError = None, attempt = Some (Fresh a),
                  currentQuestionIndex = 0\<rparr>
         \<and> status a = inProgress
         \<and> dom (statuses a) = {1, 2}
         \<and> statuses a 1 = Some NotAnswered
         \<and> statuses a 2 = Some NotVisited"
    using a(1,2) d s1 s2 by (intro exI [of _ a]) (simp add: initialApp_def)
  show ?thesis using 1 2 by (simp add: initialApp_def)
qed

text \<open>
  Against C4 as stated: both questions of the paper have the id 1. \<open>startExam\<close> creates
  an attempt in progress, whose status map has the single entry of id 1, and enters the
  exam view.
\<close>

theorem duplicate_qid_counterexample:
  "\<not> distinct (map qid [\<lparr>qid = 1, qtype = MCQ, answerKey = Some ''B''\<rparr>,
                         \<lparr>qid = 1, qtype = TITA, answerKey = Some ''42''\<rparr>])
   \<and> startExam emptyStore (sampleSet [\<lparr>qid = 1, qtype = MCQ, answerKey = Some ''B''\<rparr>,
                                      \<lparr>qid = 1, qtype = TITA, answerKey = Some ''42''\<rparr>])
        ''paper.pdf-0'' (initialApp\<lparr>view := Processing\<rparr>)
      = Inr \<lparr>view = Exam, processingError = None,
             attempt = Some (Fresh (sampleAttempt Map.empty [1 \<mapsto> NotAnswered])),
             currentQuestionIndex = 0\<rparr>"
  by (simp add: startExam_def emptyStore_def sampleSet_def truthy_def initialApp_def
        newAttempt_def sampleAttempt_def initialStatuses_def EXAM_DURATION_SECONDS_def)

section \<open>Properties of marking for review\<close>

text \<open>
  Claim C7, as amended. A single \<open>toggleMark\<close> follows the table: \<open>MarkedForReview\<close> goes
  to \<open>Answered\<close> if the question has an answer and to \<open>NotAnswered\<close> if not,
  \<open>AnsweredAndMarked\<close> goes to \<open>Answered\<close>, and any other status goes to
  \<open>AnsweredAndMarked\<close> if the question has an answer and to \<open>MarkedForReview\<close> if not.
  For a question without an answer, two toggles in succession end at \<open>NotAnswered\<close>
  when the question was not marked before (\<open>NotVisited\<close>, \<open>NotAnswered\<close>, \<open>Answered\<close>
  or no entry), and at \<open>MarkedForReview\<close> when it was marked before; never at
  \<open>NotVisited\<close>.
\<close>

theorem toggleMark_table_and_twice:
  "statuses (handleMarkForReview (Some q) att) (qid q)
     = Some (case statuses att (qid q) of
               Some MarkedForReview \<Rightarrow>
                 if truthy (answers att (qid q)) then Answered else NotAnswered
             | Some AnsweredAndMarked \<Rightarrow> Answered
             | _ \<Rightarrow> if truthy (answers att (qid q)) then AnsweredAndMarked else MarkedForReview)
   \<and> (\<not> truthy (answers att (qid q)) \<longrightarrow>
        statuses (handleMarkForReview (Some q) (handleMarkForReview (Some q) att)) (qid q)
          = Some (if statuses att (qid q) = Some MarkedForReview
                    \<or> statuses att (qid q) = Some AnsweredAndMarked
                  then MarkedForReview else NotAnswered))"
  by (simp add: handleMarkForReview_def Let_def updateStatus_def
      split: option.splits QuestionStatus.splits)

text \<open>
  The theorem of C7 at question 1 without an answer, once from \<open>NotVisited\<close> and once
  from no entry at all.
\<close>

theorem toggleMark_table_and_twice_witness:
  "\<not> truthy (answers (sampleAttempt Map.empty [1 \<mapsto> NotVisited]) 1)
   \<and> statuses (handleMarkForReview (Some \<lparr>qid = 1, qtype = MCQ, answerKey = None\<rparr>)
        (handleMarkForReview (Some \<lparr>qid = 1, qtype = MCQ, answerKey = None\<rparr>)
           (sampleAttempt Map.empty [1 \<mapsto> NotVisited]))) 1 = Some NotAnswered
   \<and> statuses (handleMarkForReview (Some \<lparr>qid = 1, qtype = MCQ, answerKey = None\<rparr>)
        (handleMarkForReview (Some \<lparr>qid = 1, qtype = MCQ, answerKey = None\<rparr>)
           (sampleAttempt Map.empty Map.empty))) 1 = Some NotAnswered"
proof -
  let ?q = "\<lparr>qid = 1, qtype = MCQ, answerKey = None\<rparr>"
  let ?a1 = "sampleAttempt Map.empty [1 \<mapsto> NotVisited]"
  let ?a2 = "sampleAttempt Map.empty Map.empty"
  have h1: "\<not> truthy (answers ?a1 (qid ?q))" by (simp add: sampleAttempt_def truthy_def)
  have h2: "\<not> truthy (answers ?a2 (qid ?q))" by (simp add: sampleAttempt_def truthy_def)
  have 1: "statuses (handleMarkForReview (Some ?q) (handleMarkForReview (Some ?q) ?a1)) (qid ?q)
           = Some (if statuses ?a1 (qid ?q) = Some MarkedForReview
                     \<or> statuses ?a1 (qid ?q) = Some AnsweredAndMarked
                   then MarkedForReview else NotAnswered)"
    using toggleMark_table_and_twice [of ?q ?a1, THEN conjunct2] h1 by blast
  have 2: "statuses (handleMarkForReview (Some ?q) (handleMarkForReview (Some ?q) ?a2)) (qid ?q)
           = Some (if statuses ?a2 (qid ?q) = Some MarkedForReview
                     \<or> statuses ?a2 (qid ?q) = Some AnsweredAndMarked
                   then MarkedForReview else NotAnswered)"
    using toggleMark_table_and_twice [of ?q ?a2, THEN conjunct2] h2 by blast
  have s1: "statuses ?a1 (qid ?q) = Some NotVisited" by (simp add: sampleAttempt_def)
  have s2: "statuses ?a2 (qid ?q) = None" by (simp add: sampleAttempt_def)
  show ?thesis using h1 1 2 s1 s2 by simp
qed

text \<open>
  Against C7 as stated: question 1 has no answer and is marked for review. The first
  toggle unmarks it, the second marks it again, so two toggles end at
  \<open>MarkedForReview\<close>, not at \<open>NotAnswered\<close>.
\<close>

theorem toggleMark_twice_counterexample:
  "\<not> truthy (answers (sampleAttempt Map.empty [1 \<mapsto> MarkedForReview]) 1)
   \<and> statuses (handleMarkForReview (Some \<lparr>qid = 1, qtype = MCQ, answerKey = None\<rparr>)
        (handleMarkForReview (Some \<lparr>qid = 1, qtype = MCQ, answerKey = None\<rparr>)
           (sampleAttempt Map.empty [1 \<mapsto> MarkedForReview]))) 1 = Some MarkedForReview"
  by (simp add: handleMarkForReview_def Let_def updateStatus_def sampleAttempt_def truthy_def)

section \<open>Properties of the countdown\<close>

text \<open>Without a scheduled interval no tick arrives: the state stays as it is.\<close>

lemma tick_no_interval: "\<not> intervalLive s \<Longrightarrow> tick s = s"
  by (simp add: tick_def)

lemma ticks_no_interval: "\<not> intervalLive s \<Longrightarrow> (tick ^^ n) s = s"
  by (induction n) (simp_all add: tick_no_interval)

text \<open>Running the effect again, as a render with unchanged state would, changes nothing.\<close>

lemma timerEffect_idem: "timerEffect (timerEffect s) = timerEffect s"
  by (simp add: timerEffect_def endTimer_def Let_def)

text \<open>
  Claim C6. A timer created with 5 seconds and started shows 5, 4, 3, 2, 1 and 0 after
  0 to 5 ticks. \<open>onEnd\<close> has not been called before the fifth tick; the fifth tick calls
  it once, stops the timer and clears the interval. After any number of further ticks
  the state is the same: the remaining time stays 0 and \<open>onEnd\<close> has been called once.
\<close>

theorem countdown_from_five:
  "map (\<lambda>k. (tick ^^ k) (start (useTimer 5))) [0, 1, 2, 3, 4, 5]
   = [\<lparr>remainingTime = 5, isRunning = True, intervalLive = True, onEndCalls = 0\<rparr>,
      \<lparr>remainingTime = 4, isRunning = True, intervalLive = True, onEndCalls = 0\<rparr>,
      \<lparr>remainingTime = 3, isRunning = True, intervalLive = True, onEndCalls = 0\<rparr>,
      \<lparr>remainingTime = 2, isRunning = True, intervalLive = True, onEndCalls = 0\<rparr>,
      \<lparr>remainingTime = 1, isRunning = True, intervalLive = True, onEndCalls = 0\<rparr>,
      \<lparr>remainingTime = 0, isRunning = False, intervalLive = False, onEndCalls = 1\<rparr>]
   \<and> (\<forall>n. (tick ^^ (5 + n)) (start (useTimer 5))
            = \<lparr>remainingTime = 0, isRunning = False, intervalLive = False, onEndCalls = 1\<rparr>)"
proof (intro conjI allI)
  show "map (\<lambda>k. (tick ^^ k) (start (useTimer 5))) [0, 1, 2, 3, 4, 5]
   = [\<lparr>remainingTime = 5, isRunning = True, intervalLive = True, onEndCalls = 0\<rparr>,
      \<lparr>remainingTime = 4, isRunning = True, intervalLive = True, onEndCalls = 0\<rparr>,
      \<lparr>remainingTime = 3, isRunning = True, intervalLive = True, onEndCalls = 0\<rparr>,
      \<lparr>remainingTime = 2, isRunning = True, intervalLive = True, onEndCalls = 0\<rparr>,
      \<lparr>remainingTime = 1, isRunning = True, intervalLive = True, onEndCalls = 0\<rparr>,
      \<lparr>remainingTime = 0, isRunning = False, intervalLive = False, onEndCalls = 1\<rparr>]"
    by (simp add: eval_nat_numeral start_def useTimer_def tick_def timerEffect_def endTimer_def)
next
  fix n
  let ?end = "\<lparr>remainingTime = 0, isRunning = False, intervalLive = False, onEndCalls = 1\<rparr>"
  have 5: "(tick ^^ 5) (start (useTimer 5)) = ?end"
    by (simp add: eval_nat_numeral start_def useTimer_def tick_def timerEffect_def endTimer_def)
  have "(tick ^^ (5 + n)) (start (useTimer 5)) = (tick ^^ n) ((tick ^^ 5) (start (useTimer 5)))"
    by (simp add: funpow_add add.commute [of 5 n] del: funpow.simps)
  also have "\<dots> = (tick ^^ n) ?end" by (simp only: 5)
  also have "\<dots> = ?end" by (rule ticks_no_interval) simp
  finally show "(tick ^^ (5 + n)) (start (useTimer 5)) = ?end" .
qed

text \<open>
  Claim C8. While the timer is running, \<open>setTime\<close> changes nothing. While it is not
  running, \<open>setTime\<close> stores the new remaining time; the timer stays paused.
\<close>

theorem setTime_only_when_paused:
  "(isRunning s \<longrightarrow> setTime v s = s)
   \<and> (\<not> isRunning s \<longrightarrow>
        setTime v s = s\<lparr>remainingTime := v, intervalLive := False\<rparr>)"
  by (simp add: setTime_def timerEffect_def)

text \<open>The theorem of C8 at a running and at a paused timer.\<close>

theorem setTime_only_when_paused_witness:
  "setTime 120 (start (useTimer 5)) = start (useTimer 5)
   \<and> remainingTime (start (useTimer 5)) = 5
   \<and> setTime 120 (useTimer 5)
       = \<lparr>remainingTime = 120, isRunning = False, intervalLive = False, onEndCalls = 0\<rparr>"
proof -
  have r: "isRunning (start (useTimer 5))"
    by (simp add: start_def useTimer_def timerEffect_def)
  have p: "\<not> isRunning (useTimer 5)" by (simp add: useTimer_def)
  have 1: "setTime 120 (start (useTimer 5)) = start (useTimer 5)"
    using setTime_only_when_paused [of "start (useTimer 5)" 120, THEN conjunct1] r by blast
  have 2: "setTime 120 (useTimer 5) = (useTimer 5)\<lparr>remainingTime := 120, intervalLive := False\<rparr>"
    using setTime_only_when_paused [of "useTimer 5" 120, THEN conjunct2] p by blast
  have 3: "remainingTime (start (useTimer 5)) = 5"
    by (simp add: start_def useTimer_def timerEffect_def)
  show ?thesis using 1 2 3 by (simp add: useTimer_def)
qed

end
